theory Spec2Isabelle
  imports Main "HOL-Library.Option_ord"
begin

section \<open>Errors and JavaScript objects\<close>

text \<open>
  Every \<^verbatim>\<open>throw\<close> of the source is a value of \<open>error\<close>; a function that can throw
  returns \<open>error + 'a\<close>, with \<open>Inl\<close> for the exception.
  \<^item> \<open>Error msg\<close> is \<^verbatim>\<open>new Error(msg)\<close>, as thrown by UserStatus and UserRole;
  \<^item> \<open>ReferenceError x\<close> is what evaluating an identifier \<open>x\<close> that no scope declares throws;
  \<^item> \<open>TypeError\<close> is what calling a method on \<^verbatim>\<open>undefined\<close> (or a non-method) throws;
  \<^item> \<open>IllegalArgumentException\<close> and \<open>MethodFailedException\<close> are the managers' exceptions;
  \<^item> \<open>ConstraintViolation\<close> is a write that the storage rejects (a trigger's
    \<^verbatim>\<open>RAISE(ABORT, ...)\<close> or a \<^verbatim>\<open>UNIQUE\<close> constraint).
\<close>

datatype error =
    Error string
  | ReferenceError string
  | TypeError
  | IllegalArgumentException string
  | MethodFailedException string
  | ConstraintViolation string

text \<open>
  A TypeScript string enum is, at run time, a plain object from member names to member
  values; a value of the enum type is a string, and a cast (\<^verbatim>\<open>x as UserStatusEnum\<close>) checks
  nothing. So enum values are strings here, and the enum object is its list of
  properties in declaration order.
\<close>

type_synonym enum_object = "(string \<times> string) list"

text \<open>
  The properties every plain object inherits from \<^verbatim>\<open>Object.prototype\<close>. The operator
  \<^verbatim>\<open>in\<close> looks a property name up along the prototype chain, so it is true of these
  names too.
\<close>

definition Object_prototype_keys :: "string list" where
  "Object_prototype_keys =
     [''constructor'', ''__defineGetter__'', ''__defineSetter__'', ''hasOwnProperty'',
      ''__lookupGetter__'', ''__lookupSetter__'', ''isPrototypeOf'',
      ''propertyIsEnumerable'', ''toString'', ''valueOf'', ''__proto__'',
      ''toLocaleString'']"

definition js_in :: "string \<Rightarrow> enum_object \<Rightarrow> bool" where
  "js_in k obj = (k \<in> set (map fst obj) \<or> k \<in> set Object_prototype_keys)"

text \<open>
  Objects of a class live in a store; a reference is an index into it. \<^verbatim>\<open>new\<close> appends
  an object and returns its index, so two references are the same instance exactly when
  they are equal.
\<close>

type_synonym ref = nat
type_synonym 'a heap = "'a list"

section \<open>UserStatus\<close>

type_synonym UserStatusEnum = string

definition confirmed :: UserStatusEnum where "confirmed = ''confirmed''"
definition unconfirmed :: UserStatusEnum where "unconfirmed = ''unconfirmed''"
definition suspended :: UserStatusEnum where "suspended = ''suspended''"
definition removed :: UserStatusEnum where "removed = ''removed''"

definition UserStatusEnum :: enum_object where
  "UserStatusEnum =
     [(''confirmed'', confirmed), (''unconfirmed'', unconfirmed),
      (''suspended'', suspended), (''removed'', removed)]"

record UserStatus =
  status :: UserStatusEnum

definition UserStatus_validTransitions :: "(UserStatusEnum \<times> UserStatusEnum list) list" where
  "UserStatus_validTransitions =
     [(confirmed, [suspended]),
      (unconfirmed, [confirmed, suspended, removed]),
      (suspended, [confirmed, removed]),
      (removed, [])]"

text \<open>
  \<^verbatim>\<open>new UserStatus(initialStatus)\<close>: throws unless \<^verbatim>\<open>initialStatus in UserStatusEnum\<close>.
\<close>

definition UserStatus_new ::
  "UserStatus heap \<Rightarrow> UserStatusEnum \<Rightarrow> error + (ref \<times> UserStatus heap)" where
  "UserStatus_new h initialStatus =
     (if \<not> js_in initialStatus UserStatusEnum
      then Inl (Error (''Invalid initial status: '' @ initialStatus))
      else Inr (length h, h @ [\<lparr>status = initialStatus\<rparr>]))"

definition getStatusString :: "UserStatus \<Rightarrow> string" where
  "getStatusString this = status this"

definition getStatusEnum :: "UserStatus \<Rightarrow> UserStatusEnum" where
  "getStatusEnum this = status this"

text \<open>
  \<^verbatim>\<open>validTransitions[this.status].includes(newStatus)\<close>. For a state that is no key of
  the table the lookup gives \<^verbatim>\<open>undefined\<close> (or an inherited property that is no array),
  and the call of \<^verbatim>\<open>includes\<close> throws a TypeError.
\<close>

definition UserStatus_canTransitionTo :: "UserStatus \<Rightarrow> UserStatusEnum \<Rightarrow> error + bool" where
  "UserStatus_canTransitionTo this newStatus =
     (case map_of UserStatus_validTransitions (status this) of
        None \<Rightarrow> Inl TypeError
      | Some allowedTransitions \<Rightarrow> Inr (newStatus \<in> set allowedTransitions))"

definition UserStatus_transitionTo ::
  "UserStatus heap \<Rightarrow> ref \<Rightarrow> UserStatusEnum \<Rightarrow> error + (ref \<times> UserStatus heap)" where
  "UserStatus_transitionTo h this newStatus =
     (if status (h ! this) = newStatus then Inr (this, h)
      else
        (case UserStatus_canTransitionTo (h ! this) newStatus of
           Inl e \<Rightarrow> Inl e
         | Inr can \<Rightarrow>
             if can then UserStatus_new h newStatus
             else Inl (Error (''Invalid transition from '' @ status (h ! this) @
                               '' to '' @ newStatus))))"

section \<open>UserRole\<close>

type_synonym UserRoleEnum = string

definition USER :: UserRoleEnum where "USER = ''USER''"
definition ADMIN :: UserRoleEnum where "ADMIN = ''ADMIN''"

definition UserRoleEnum :: enum_object where
  "UserRoleEnum = [(''USER'', USER), (''ADMIN'', ADMIN)]"

text \<open>
  The identifiers the module of UserRole can resolve to an enum object: it declares
  \<^verbatim>\<open>UserRoleEnum\<close> and nothing else of that kind.
\<close>

definition UserRole_scope :: "string \<Rightarrow> enum_object option" where
  "UserRole_scope x = (if x = ''UserRoleEnum'' then Some UserRoleEnum else None)"

record UserRole =
  role :: UserRoleEnum

definition UserRole_validTransitions :: "(UserRoleEnum \<times> UserRoleEnum list) list" where
  "UserRole_validTransitions = [(USER, [ADMIN]), (ADMIN, [USER])]"

text \<open>
  \<^verbatim>\<open>new UserRole(initialRole)\<close>. The guard of the source reads
  \<^verbatim>\<open>if (initialRole in UserRoleEnaum)\<close>: the identifier is looked up first, and the
  guard is not negated.
\<close>

definition UserRole_new ::
  "UserRole heap \<Rightarrow> UserRoleEnum \<Rightarrow> error + (ref \<times> UserRole heap)" where
  "UserRole_new h initialRole =
     (case UserRole_scope ''UserRoleEnaum'' of
        None \<Rightarrow> Inl (ReferenceError ''UserRoleEnaum'')
      | Some obj \<Rightarrow>
          if js_in initialRole obj
          then Inl (Error (''Invalid initial role: '' @ initialRole))
          else Inr (length h, h @ [\<lparr>role = initialRole\<rparr>]))"

definition getRoleObject :: "ref \<Rightarrow> ref" where
  "getRoleObject this = this"

definition getRoleString :: "UserRole \<Rightarrow> string" where
  "getRoleString this = role this"

definition UserRole_canTransitionTo :: "UserRole \<Rightarrow> UserRoleEnum \<Rightarrow> error + bool" where
  "UserRole_canTransitionTo this newRole =
     (case map_of UserRole_validTransitions (role this) of
        None \<Rightarrow> Inl TypeError
      | Some allowedTransitions \<Rightarrow> Inr (newRole \<in> set allowedTransitions))"

definition UserRole_transitionTo ::
  "UserRole heap \<Rightarrow> ref \<Rightarrow> UserRoleEnum \<Rightarrow> error + (ref \<times> UserRole heap)" where
  "UserRole_transitionTo h this newRole =
     (if role (h ! this) = newRole then Inr (this, h)
      else
        (case UserRole_canTransitionTo (h ! this) newRole of
           Inl e \<Rightarrow> Inl e
         | Inr can \<Rightarrow>
             if can then UserRole_new h newRole
             else Inl (Error (''Invalid transition from '' @ role (h ! this) @
                               '' to '' @ newRole))))"

section \<open>User\<close>

text \<open>
  A JavaScript number that a column holds; the users table stores INTEGER columns.
\<close>

type_synonym number = int

text \<open>
  Modelled from the spec: the Reader and Writer interfaces (Serializer/Reader and
  Serializer/Writer are not among the sources). The spec describes them as abstract
  column accessors that read or write a named field of a declared semantic type (number,
  string, and their nullable variants). A Reader is its two accessors; a Writer is the
  sequence of the calls it has received, \<open>None\<close> standing for \<^verbatim>\<open>null\<close>.
\<close>

record Reader =
  readNumber :: "string \<Rightarrow> number option"
  readString :: "string \<Rightarrow> string option"

datatype written =
    writeNumber string "number option"
  | writeString string "string option"

type_synonym Writer = "written list"

text \<open>
  Modelled from the spec: the Email value type (ValueTypes/Email is not among the
  sources). The spec has \<^verbatim>\<open>populate\<close> wrap a raw string into an Email value and
  \<^verbatim>\<open>emit\<close> project an Email to its string form. The constructor checks the string
  and throws for one it does not take for an address: the controllers call
  \<^verbatim>\<open>new Email(...)\<close> inside \<^verbatim>\<open>try\<close> and answer "Invalid email address" in the
  \<^verbatim>\<open>catch\<close>. The check itself is not among the sources, so it is a parameter: a
  function that gives, for a string, the exception the constructor throws, or \<open>None\<close>
  when it accepts the string.
\<close>

datatype Email = Email string

type_synonym Email_check = "string \<Rightarrow> error option"

definition Email_new :: "Email_check \<Rightarrow> string \<Rightarrow> error + Email" where
  "Email_new check s = (case check s of Some e \<Rightarrow> Inl e | None \<Rightarrow> Inr (Email s))"

fun Email_toString :: "Email \<Rightarrow> string" where
  "Email_toString (Email s) = s"

text \<open>
  The fields of a User. \<open>user_status\<close> is a reference to a UserStatus object. The
  source declares \<^verbatim>\<open>id: number\<close> and \<^verbatim>\<open>role: string\<close> and assigns them from the reader
  through unchecked casts (\<^verbatim>\<open>as number\<close>, \<^verbatim>\<open>as string\<close>), so at run time both can hold
  \<^verbatim>\<open>null\<close>.
\<close>

record User =
  user_id :: "number option"
  name :: "string option"
  githubUsername :: "string option"
  email :: "Email option"
  user_status :: ref
  user_role :: "string option"
  password :: "string option"
  resetPasswordToken :: "string option"
  resetPasswordExpire :: "number option"
  confirmEmailToken :: "string option"
  confirmEmailExpire :: "number option"

text \<open>
  \<^verbatim>\<open>new User(id)\<close>: the field initialisers run, among them \<^verbatim>\<open>new UserStatus()\<close> with its
  default argument \<^verbatim>\<open>UserStatusEnum.unconfirmed\<close>, then the constructor assigns the id.
\<close>

definition User_new :: "UserStatus heap \<Rightarrow> number \<Rightarrow> error + (User \<times> UserStatus heap)" where
  "User_new h i =
     (case UserStatus_new h unconfirmed of
        Inl e \<Rightarrow> Inl e
      | Inr (r, h') \<Rightarrow>
          Inr (\<lparr>user_id = Some i, name = None, githubUsername = None, email = None,
                user_status = r, user_role = Some ''USER'', password = None,
                resetPasswordToken = None, resetPasswordExpire = None,
                confirmEmailToken = None, confirmEmailExpire = None\<rparr>, h'))"

text \<open>
  \<^verbatim>\<open>this.status.transitionTo(x as UserStatusEnum)\<close> for a nullable string \<open>x\<close>. With
  \<^verbatim>\<open>null\<close> the comparison \<^verbatim>\<open>this.status === null\<close> is false and
  \<^verbatim>\<open>includes(null)\<close> is false, so the call throws (the TypeError of a state that is
  no key of the table comes first).
\<close>

definition UserStatus_transitionTo_cast ::
  "UserStatus heap \<Rightarrow> ref \<Rightarrow> string option \<Rightarrow> error + (ref \<times> UserStatus heap)" where
  "UserStatus_transitionTo_cast h this x =
     (case x of
        Some newStatus \<Rightarrow> UserStatus_transitionTo h this newStatus
      | None \<Rightarrow>
          (case map_of UserStatus_validTransitions (status (h ! this)) of
             None \<Rightarrow> Inl TypeError
           | Some allowedTransitions \<Rightarrow>
               Inl (Error (''Invalid transition from '' @ status (h ! this) @ '' to null''))))"

text \<open>
  \<^verbatim>\<open>readFrom\<close> assigns the fields in the order of the source; its first argument is
  the check of the Email constructor. An exception of \<^verbatim>\<open>new Email\<close> or of
  \<^verbatim>\<open>transitionTo\<close> ends it; the result is then the exception.
\<close>

definition readFrom ::
  "Email_check \<Rightarrow> UserStatus heap \<Rightarrow> User \<Rightarrow> Reader \<Rightarrow> error + (User \<times> UserStatus heap)" where
  "readFrom check h this reader =
     (let this1 = this\<lparr>user_id := readNumber reader ''id'',
                       name := readString reader ''name'',
                       githubUsername := readString reader ''githubUsername''\<rparr>;
          emailString = readString reader ''email''
      in case (case emailString of
                 Some s \<Rightarrow>
                   (case Email_new check s of
                      Inl e \<Rightarrow> Inl e
                    | Inr address \<Rightarrow> Inr (this1\<lparr>email := Some address\<rparr>))
               | None \<Rightarrow> Inr (this1\<lparr>email := None\<rparr>)) of
           Inl e \<Rightarrow> Inl e
         | Inr this2 \<Rightarrow>
             (case UserStatus_transitionTo_cast h (user_status this2)
                     (readString reader ''status'') of
                Inl e \<Rightarrow> Inl e
              | Inr (r, h') \<Rightarrow>
                  Inr (this2\<lparr>user_status := r,
                             user_role := readString reader ''userRole'',
                             password := readString reader ''password'',
                             resetPasswordToken := readString reader ''resetPasswordToken'',
                             resetPasswordExpire := readNumber reader ''resetPasswordExpire'',
                             confirmEmailToken := readString reader ''confirmEmailToken'',
                             confirmEmailExpire := readNumber reader ''confirmEmailExpire''\<rparr>,
                       h')))"

definition writeTo :: "UserStatus heap \<Rightarrow> User \<Rightarrow> Writer \<Rightarrow> Writer" where
  "writeTo h this writer =
     writer @
     [writeNumber ''id'' (user_id this),
      writeString ''name'' (name this),
      writeString ''githubUsername'' (githubUsername this),
      (case email this of
         None \<Rightarrow> writeString ''email'' None
       | Some e \<Rightarrow> writeString ''email'' (Some (Email_toString e))),
      writeString ''status'' (Some (getStatusString (h ! user_status this))),
      writeString ''userRole'' (user_role this),
      writeString ''password'' (password this),
      writeString ''resetPasswordToken'' (resetPasswordToken this),
      writeNumber ''resetPasswordExpire'' (resetPasswordExpire this),
      writeString ''confirmEmailToken'' (confirmEmailToken this),
      writeNumber ''confirmEmailExpire'' (confirmEmailExpire this)]"

definition getStatus :: "UserStatus heap \<Rightarrow> User \<Rightarrow> string" where
  "getStatus h this = getStatusString (h ! user_status this)"

definition getRole :: "User \<Rightarrow> string option" where
  "getRole this = user_role this"

definition setStatus ::
  "UserStatus heap \<Rightarrow> User \<Rightarrow> string \<Rightarrow> error + (User \<times> UserStatus heap)" where
  "setStatus h this s =
     (case UserStatus_transitionTo h (user_status this) s of
        Inl e \<Rightarrow> Inl e
      | Inr (r, h') \<Rightarrow> Inr (this\<lparr>user_status := r\<rparr>, h'))"

definition setRole :: "User \<Rightarrow> string \<Rightarrow> User" where
  "setRole this r = this\<lparr>user_role := Some r\<rparr>"

section \<open>Storage\<close>

text \<open>
  The tables of \<^verbatim>\<open>initializeDB\<close> that the managers touch, each a list of rows in
  insertion order. A column the schema leaves nullable is an \<open>option\<close>; the columns
  \<^verbatim>\<open>id INTEGER PRIMARY KEY\<close> and \<^verbatim>\<open>termId INTEGER NOT NULL\<close> are not. SQLite enforces a
  \<^verbatim>\<open>FOREIGN KEY\<close> clause only on a connection that enables it, which \<^verbatim>\<open>initializeDB\<close> does
  not do, so the clauses put no rule on a write.
\<close>

record terms_row =
  terms_id :: int
  terms_termName :: "string option"
  terms_displayName :: "string option"

record courses_row =
  courses_id :: int
  courses_courseName :: "string option"
  courses_termId :: int

record projects_row =
  projects_id :: int
  projects_projectName :: "string option"
  projects_courseId :: "int option"

record user_projects_row =
  user_projects_userId :: "int option"
  user_projects_projectId :: "int option"
  user_projects_role :: "string option"
  user_projects_url :: "string option"

record schedules_row =
  schedules_id :: int
  schedules_startDate :: "int option"
  schedules_endDate :: "int option"

record submissions_row =
  submissions_id :: int
  submissions_scheduleId :: "int option"
  submissions_submissionDate :: "int option"

record Database =
  terms :: "terms_row list"
  courses :: "courses_row list"
  projects :: "projects_row list"
  user_projects :: "user_projects_row list"
  schedules :: "schedules_row list"
  submissions :: "submissions_row list"

text \<open>
  An SQL comparison \<^verbatim>\<open>x < y\<close> in a \<^verbatim>\<open>WHERE\<close> clause selects a row only when it is
  true; with a \<^verbatim>\<open>NULL\<close> operand it is \<^verbatim>\<open>NULL\<close> and selects nothing.
\<close>

definition sql_lt :: "int option \<Rightarrow> int option \<Rightarrow> bool" where
  "sql_lt x y = (case x of None \<Rightarrow> False | Some a \<Rightarrow> (case y of None \<Rightarrow> False | Some b \<Rightarrow> a < b))"

text \<open>
  The scalar subqueries of the triggers,
  \<^verbatim>\<open>(SELECT startDate FROM schedules WHERE id = NEW.scheduleId)\<close> and the same for
  \<^verbatim>\<open>endDate\<close>: the column of the first matching row, \<^verbatim>\<open>NULL\<close> when there is none.
\<close>

definition select_startDate :: "Database \<Rightarrow> int option \<Rightarrow> int option" where
  "select_startDate db sid =
     (case sid of
        None \<Rightarrow> None
      | Some i \<Rightarrow>
          (case find (\<lambda>r. schedules_id r = i) (schedules db) of
             None \<Rightarrow> None
           | Some r \<Rightarrow> schedules_startDate r))"

definition select_endDate :: "Database \<Rightarrow> int option \<Rightarrow> int option" where
  "select_endDate db sid =
     (case sid of
        None \<Rightarrow> None
      | Some i \<Rightarrow>
          (case find (\<lambda>r. schedules_id r = i) (schedules db) of
             None \<Rightarrow> None
           | Some r \<Rightarrow> schedules_endDate r))"

text \<open>
  \<^verbatim>\<open>submissions_insert_trigger\<close>: true when the trigger raises for the row \<open>NEW\<close>.
\<close>

definition submissions_insert_trigger :: "Database \<Rightarrow> submissions_row \<Rightarrow> bool" where
  "submissions_insert_trigger db NEW =
     (sql_lt (submissions_submissionDate NEW) (select_startDate db (submissions_scheduleId NEW)) \<or>
      sql_lt (select_endDate db (submissions_scheduleId NEW)) (submissions_submissionDate NEW))"

text \<open>
  \<^verbatim>\<open>UNIQUE (scheduleId, submissionDate)\<close>: true when a stored row has the pair of
  \<open>NEW\<close>. A \<^verbatim>\<open>NULL\<close> in either column never conflicts.
\<close>

definition submissions_unique_conflict :: "Database \<Rightarrow> submissions_row \<Rightarrow> bool" where
  "submissions_unique_conflict db NEW =
     (submissions_scheduleId NEW \<noteq> None \<and> submissions_submissionDate NEW \<noteq> None \<and>
      (submissions_scheduleId NEW, submissions_submissionDate NEW) \<in>
        set (map (\<lambda>r. (submissions_scheduleId r, submissions_submissionDate r)) (submissions db)))"

text \<open>
  \<^verbatim>\<open>id INTEGER PRIMARY KEY\<close> of \<^verbatim>\<open>submissions\<close>: true when a stored row has the id of
  \<open>NEW\<close>.
\<close>

definition submissions_primary_key_conflict :: "Database \<Rightarrow> submissions_row \<Rightarrow> bool" where
  "submissions_primary_key_conflict db NEW =
     (submissions_id NEW \<in> set (map submissions_id (submissions db)))"

text \<open>
  An insert into \<^verbatim>\<open>submissions\<close> of a row with its id, under the rules of the schema:
  the trigger runs before the insert, then the primary key and the uniqueness constraint
  are checked. Each of the three rejects the insert as a constraint violation.
\<close>

definition insert_submission :: "Database \<Rightarrow> submissions_row \<Rightarrow> error + Database" where
  "insert_submission db NEW =
     (if submissions_insert_trigger db NEW
      then Inl (ConstraintViolation ''submissionDate must be between startDate and endDate'')
      else if submissions_primary_key_conflict db NEW
      then Inl (ConstraintViolation ''UNIQUE constraint failed: submissions.id'')
      else if submissions_unique_conflict db NEW
      then Inl (ConstraintViolation
                 ''UNIQUE constraint failed: submissions.scheduleId, submissions.submissionDate'')
      else Inr (db\<lparr>submissions := submissions db @ [NEW]\<rparr>))"

text \<open>
  \<^verbatim>\<open>DELETE FROM submissions WHERE scheduleId = ?\<close>, a statement of \<^verbatim>\<open>deleteCourse\<close> and of
  \<^verbatim>\<open>saveSchedule\<close>.
\<close>

definition delete_submissions :: "Database \<Rightarrow> int \<Rightarrow> Database" where
  "delete_submissions db sid =
     db\<lparr>submissions := filter (\<lambda>r. submissions_scheduleId r \<noteq> Some sid) (submissions db)\<rparr>"


text \<open>
  The database of \<^verbatim>\<open>initializeDB(":memory:", false)\<close>: the tables exist and are empty.
\<close>

definition initializeDB :: Database where
  "initializeDB =
     \<lparr>terms = [], courses = [], projects = [], user_projects = [], schedules = [],
      submissions = []\<rparr>"

section \<open>Entities and the serializer\<close>

text \<open>
  Modelled from the spec: the entities CourseSchedule, SubmissionDate, Course and
  CourseProject (the files under Models are not among the sources). The spec gives every
  entity an integer id, scalar fields (among them nullable dates as integers) and
  relationship fields: a schedule owns its submission dates, a course its projects, and a
  project refers to its course. The fields are those the managers and the tests set and
  read. A project's reference to its course is the course's id here.
\<close>

record SubmissionDate =
  sd_id :: int
  submissionDate :: "int option"

record CourseSchedule =
  cs_id :: int
  startDate :: "int option"
  endDate :: "int option"
  submissionDates :: "SubmissionDate list"

record CourseProject =
  project_id :: int
  project_name :: "string option"
  project_course :: "int option"

record Course =
  course_id :: int
  course_name :: "string option"
  course_projects :: "CourseProject list"

text \<open>
  The dates that the submission dates of a schedule hold, without the \<^verbatim>\<open>null\<close>s.
\<close>

definition dates_of :: "SubmissionDate list \<Rightarrow> int list" where
  "dates_of cs = List.map_filter submissionDate cs"

text \<open>
  A submission date is outside the window of its schedule when it is before the start
  date or after the end date; a \<^verbatim>\<open>null\<close> on either side of a comparison makes it
  false, as in the trigger.
\<close>

definition outside_window :: "CourseSchedule \<Rightarrow> SubmissionDate \<Rightarrow> bool" where
  "outside_window s c =
     (sql_lt (submissionDate c) (startDate s) \<or> sql_lt (endDate s) (submissionDate c))"


text \<open>
  Modelled from the spec: the lookups of ObjectHandler (not among the sources). The spec's
  \<^verbatim>\<open>getById\<close> returns the entity reconstructed from the row with that id, or nothing
  when no such row exists, and never throws for "not found". A schedule comes with its
  submission dates, sorted by date (the test "should return sorted submission dates").
\<close>

definition getCourse :: "Database \<Rightarrow> int \<Rightarrow> Course option" where
  "getCourse db i =
     map_option
       (\<lambda>r. \<lparr>course_id = courses_id r, course_name = courses_courseName r, course_projects = []\<rparr>)
       (find (\<lambda>r. courses_id r = i) (courses db))"

definition getCourseProject :: "Database \<Rightarrow> int \<Rightarrow> CourseProject option" where
  "getCourseProject db i =
     map_option
       (\<lambda>r. \<lparr>project_id = projects_id r, project_name = projects_projectName r,
              project_course = projects_courseId r\<rparr>)
       (find (\<lambda>r. projects_id r = i) (projects db))"

definition getCourseSchedule :: "Database \<Rightarrow> int \<Rightarrow> CourseSchedule option" where
  "getCourseSchedule db i =
     map_option
       (\<lambda>r. \<lparr>cs_id = schedules_id r, startDate = schedules_startDate r,
              endDate = schedules_endDate r,
              submissionDates =
                map (\<lambda>c. \<lparr>sd_id = submissions_id c, submissionDate = submissions_submissionDate c\<rparr>)
                  (sort_key submissions_submissionDate
                     (filter (\<lambda>c. submissions_scheduleId c = Some i) (submissions db)))\<rparr>)
       (find (\<lambda>r. schedules_id r = i) (schedules db))"

text \<open>
  The factory (DatabaseSerializableFactory) is not among the sources. The managers are
  given it as a parameter: for each kind they create, a function from the database to the
  new entity (or \<^verbatim>\<open>null\<close>) and the database after the reservation of its identity.
\<close>

record Factory =
  create_CourseSchedule :: "Database \<Rightarrow> CourseSchedule option \<times> Database"
  create_SubmissionDate :: "Database \<Rightarrow> SubmissionDate option \<times> Database"

text \<open>
  Modelled from the spec: \<^verbatim>\<open>writeRoot\<close> of DatabaseWriter (not among the sources), for a
  CourseSchedule. In the spec's words: it persists the entity's current field values,
  updating the row with the entity's id when one exists and inserting a row with that id
  otherwise; for the owned collection it removes the existing children of that parent,
  then inserts the current in-memory children; a constraint violation raised by storage
  (the submission-date window, a duplicate submission date) propagates as a
  ConstraintViolation, and the write is atomic per call. A child is inserted as a row
  with the child's id.
\<close>

definition write_schedule_row :: "Database \<Rightarrow> CourseSchedule \<Rightarrow> Database" where
  "write_schedule_row db s =
     (let row = \<lparr>schedules_id = cs_id s, schedules_startDate = startDate s,
                 schedules_endDate = endDate s\<rparr>
      in if find (\<lambda>r. schedules_id r = cs_id s) (schedules db) \<noteq> None
         then db\<lparr>schedules := map (\<lambda>r. if schedules_id r = cs_id s then row else r) (schedules db)\<rparr>
         else db\<lparr>schedules := schedules db @ [row]\<rparr>)"

text \<open>The row of a child of the schedule with id \<open>sid\<close>.\<close>

definition child_row :: "int \<Rightarrow> SubmissionDate \<Rightarrow> submissions_row" where
  "child_row sid c =
     \<lparr>submissions_id = sd_id c, submissions_scheduleId = Some sid,
      submissions_submissionDate = submissionDate c\<rparr>"

fun insert_children :: "Database \<Rightarrow> int \<Rightarrow> SubmissionDate list \<Rightarrow> error + Database" where
  "insert_children db sid [] = Inr db"
| "insert_children db sid (c # cs) =
     (case insert_submission db (child_row sid c) of
        Inl e \<Rightarrow> Inl e
      | Inr db' \<Rightarrow> insert_children db' sid cs)"

definition writeRoot :: "Database \<Rightarrow> CourseSchedule \<Rightarrow> (error + unit) \<times> Database" where
  "writeRoot db s =
     (let db1 = write_schedule_row db s;
          db2 = delete_submissions db1 (cs_id s)
      in case insert_children db2 (cs_id s) (submissionDates s) of
           Inl e \<Rightarrow> (Inl e, db)
         | Inr db3 \<Rightarrow> (Inr (), db3))"

section \<open>TermManager\<close>

text \<open>
  A manager's operation returns its outcome (the exception or the value) and the database
  after it.
\<close>

definition deleteTerm :: "Database \<Rightarrow> int \<Rightarrow> (error + bool) \<times> Database" where
  "deleteTerm db termId =
     (case find (\<lambda>r. terms_id r = termId) (terms db) of
        None \<Rightarrow> (Inr False, db)
      | Some term \<Rightarrow>
          (let courses' = filter (\<lambda>r. courses_termId r = termId) (courses db)
           in if length courses' > 0
              then (Inl (IllegalArgumentException
                      ''Cannot delete term with existing courses. Please delete all courses first.''),
                    db)
              else (Inr True, db\<lparr>terms := filter (\<lambda>r. terms_id r \<noteq> termId) (terms db)\<rparr>)))"

section \<open>CourseManager\<close>

definition getProjectsForCourse :: "Database \<Rightarrow> Course \<Rightarrow> CourseProject list" where
  "getProjectsForCourse db course =
     List.map_filter
       (\<lambda>row. map_option (\<lambda>project. project\<lparr>project_course := Some (course_id course)\<rparr>)
                 (getCourseProject db (projects_id row)))
       (filter (\<lambda>r. projects_courseId r = Some (course_id course)) (projects db))"

definition readCourse :: "Database \<Rightarrow> int \<Rightarrow> error + Course" where
  "readCourse db i =
     (case getCourse db i of
        None \<Rightarrow> Inl (IllegalArgumentException ''CourseID not found.'')
      | Some c \<Rightarrow> Inr (c\<lparr>course_projects := course_projects c @ getProjectsForCourse db c\<rparr>))"

definition deleteProject :: "Database \<Rightarrow> int \<Rightarrow> (error + bool) \<times> Database" where
  "deleteProject db projectId =
     (case getCourseProject db projectId of
        None \<Rightarrow> (Inr False, db)
      | Some project \<Rightarrow>
          (let db1 = db\<lparr>projects := filter (\<lambda>r. projects_id r \<noteq> projectId) (projects db)\<rparr>;
               db2 = db1\<lparr>user_projects :=
                           filter (\<lambda>r. user_projects_projectId r \<noteq> Some projectId)
                             (user_projects db1)\<rparr>
           in (Inr True, db2)))"

text \<open>
  \<^verbatim>\<open>deleteCourse\<close>: the three \<^verbatim>\<open>DELETE\<close> statements run in the order of the source. The
  schema's \<^verbatim>\<open>ON DELETE CASCADE\<close> from a schedule to its submissions has nothing left to
  delete after the first of them.
\<close>

definition deleteCourse :: "Database \<Rightarrow> int \<Rightarrow> (error + bool) \<times> Database" where
  "deleteCourse db courseId =
     (case find (\<lambda>r. courses_id r = courseId) (courses db) of
        None \<Rightarrow> (Inr False, db)
      | Some course \<Rightarrow>
          (let projects' = filter (\<lambda>r. projects_courseId r = Some courseId) (projects db)
           in if length projects' > 0
              then (Inl (IllegalArgumentException
                      ''Cannot delete course with existing projects. Please delete all projects first.''),
                    db)
              else
                (let db1 = delete_submissions db courseId;
                     db2 = db1\<lparr>schedules := filter (\<lambda>r. schedules_id r \<noteq> courseId) (schedules db1)\<rparr>;
                     db3 = db2\<lparr>courses := filter (\<lambda>r. courses_id r \<noteq> courseId) (courses db2)\<rparr>
                 in (Inr True, db3))))"

text \<open>
  The loop of \<^verbatim>\<open>saveSchedule\<close> that creates one SubmissionDate for each date, skipping
  a date for which the factory returns \<^verbatim>\<open>null\<close>.
\<close>

fun create_submissionDates ::
  "Factory \<Rightarrow> Database \<Rightarrow> int list \<Rightarrow> SubmissionDate list \<times> Database" where
  "create_submissionDates f db [] = ([], db)"
| "create_submissionDates f db (date # dates) =
     (case create_SubmissionDate f db of
        (None, db') \<Rightarrow> create_submissionDates f db' dates
      | (Some subDate, db') \<Rightarrow>
          (case create_submissionDates f db' dates of
             (objs, db'') \<Rightarrow> (subDate\<lparr>submissionDate := Some date\<rparr> # objs, db'')))"

text \<open>
  \<^verbatim>\<open>saveSchedule(courseId, startDate, endDate, submissionDates)\<close>; a date is the integer
  the schema stores for it.
\<close>

definition saveSchedule ::
  "Factory \<Rightarrow> Database \<Rightarrow> int \<Rightarrow> int \<Rightarrow> int \<Rightarrow> int list \<Rightarrow> (error + CourseSchedule) \<times> Database" where
  "saveSchedule f db courseId startDate' endDate' dates =
     (case readCourse db courseId of
        Inl e \<Rightarrow> (Inl e, db)
      | Inr course \<Rightarrow>
          (case (case getCourseSchedule db courseId of
                   Some s \<Rightarrow> (Some s, db)
                 | None \<Rightarrow>
                     (case create_CourseSchedule f db of
                        (None, db') \<Rightarrow> (None, db')
                      | (Some s, db') \<Rightarrow> (Some (s\<lparr>cs_id := courseId\<rparr>), db'))) of
             (None, db1) \<Rightarrow> (Inl (MethodFailedException ''Schedule creation failed''), db1)
           | (Some schedule, db1) \<Rightarrow>
               (let schedule1 = schedule\<lparr>startDate := Some startDate', endDate := Some endDate'\<rparr>;
                    db2 = delete_submissions db1 courseId
                in case create_submissionDates f db2 dates of
                     (submissionDateObjects, db3) \<Rightarrow>
                       (let schedule2 = schedule1\<lparr>submissionDates := submissionDateObjects\<rparr>
                        in case writeRoot db3 schedule2 of
                             (Inl e, db4) \<Rightarrow> (Inl e, db4)
                           | (Inr u, db4) \<Rightarrow> (Inr schedule2, db4)))))"

section \<open>A scenario\<close>

text \<open>
  The database of the test "Create new Course and Project": the term WS2425, the course
  ADAP under it and the project proj under the course. The factory of the scenario numbers
  a new entity after the rows of its table.
\<close>

definition scenario_db :: Database where
  "scenario_db =
     initializeDB
       \<lparr>terms := [\<lparr>terms_id = 1, terms_termName = Some ''WS2425'',
                   terms_displayName = Some ''Winter 2024/25''\<rparr>],
        courses := [\<lparr>courses_id = 10, courses_courseName = Some ''ADAP'', courses_termId = 1\<rparr>],
        projects := [\<lparr>projects_id = 100, projects_projectName = Some ''proj'',
                      projects_courseId = Some 10\<rparr>]\<rparr>"

definition scenario_factory :: Factory where
  "scenario_factory =
     \<lparr>create_CourseSchedule =
        (\<lambda>db. (Some \<lparr>cs_id = 1 + int (length (schedules db)), startDate = None, endDate = None,
                      submissionDates = []\<rparr>, db)),
      create_SubmissionDate =
        (\<lambda>db. (Some \<lparr>sd_id = 1 + int (length (submissions db)), submissionDate = None\<rparr>, db))\<rparr>"

text \<open>
  A check for the Email constructor in the scenario: it rejects a string without the
  character @, the rule by which \<^verbatim>\<open>changeEmail\<close> answers "Invalid email address".
\<close>

definition requires_at :: Email_check where
  "requires_at s =
     (if CHR ''@'' \<in> set s then None else Some (Error ''Invalid email address''))"

section \<open>The state machines\<close>

lemmas status_defs = confirmed_def unconfirmed_def suspended_def removed_def

lemmas role_defs = USER_def ADMIN_def

lemma UserStatus_new_member:
  "s \<in> {confirmed, unconfirmed, suspended, removed} \<Longrightarrow>
   UserStatus_new h s = Inr (length h, h @ [\<lparr>status = s\<rparr>])"
  by (auto simp add: UserStatus_new_def js_in_def UserStatusEnum_def status_defs)

text \<open>
  The guard of the constructor is \<^verbatim>\<open>in\<close>, which also finds inherited properties: a name
  of \<^verbatim>\<open>Object.prototype\<close> passes it, although it is no member of the enumeration.
\<close>

lemma UserStatus_new_inherited_key:
  "UserStatus_new [] ''toString'' = Inr (0, [\<lparr>status = ''toString''\<rparr>])"
  by (simp add: UserStatus_new_def js_in_def Object_prototype_keys_def)

lemma UserStatus_new_invalid:
  "UserStatus_new h ''invalid'' = Inl (Error ''Invalid initial status: invalid'')"
  by (simp add: UserStatus_new_def js_in_def UserStatusEnum_def Object_prototype_keys_def)

text \<open>
  C2: \<^verbatim>\<open>canTransitionTo\<close> answers by the declared tables, for every target (a member of
  the enumeration or any other string): unconfirmed allows confirmed, suspended and
  removed; confirmed allows suspended; suspended allows confirmed and removed; removed
  allows nothing; USER allows ADMIN and ADMIN allows USER.
\<close>

theorem canTransitionTo_tables:
  "UserStatus_canTransitionTo \<lparr>status = unconfirmed\<rparr> t =
     Inr (t \<in> {confirmed, suspended, removed}) \<and>
   UserStatus_canTransitionTo \<lparr>status = confirmed\<rparr> t = Inr (t \<in> {suspended}) \<and>
   UserStatus_canTransitionTo \<lparr>status = suspended\<rparr> t = Inr (t \<in> {confirmed, removed}) \<and>
   UserStatus_canTransitionTo \<lparr>status = removed\<rparr> t = Inr False \<and>
   UserRole_canTransitionTo \<lparr>role = USER\<rparr> t = Inr (t \<in> {ADMIN}) \<and>
   UserRole_canTransitionTo \<lparr>role = ADMIN\<rparr> t = Inr (t \<in> {USER})"
  by (simp add: UserStatus_canTransitionTo_def UserStatus_validTransitions_def
      UserRole_canTransitionTo_def UserRole_validTransitions_def status_defs role_defs)

text \<open>
  C3: constructing a UserRole fails for every initial value, the members USER and ADMIN
  included: the guard evaluates the identifier \<^verbatim>\<open>UserRoleEnaum\<close>, which nothing declares.
  The specification has the construction succeed for every member.
\<close>

theorem UserRole_new_throws:
  "UserRole_new h initialRole = Inl (ReferenceError ''UserRoleEnaum'')"
  by (simp add: UserRole_new_def UserRole_scope_def)

text \<open>
  C4, as stated, fails at the target removed: \<^verbatim>\<open>transitionTo(removed)\<close> on a UserStatus in
  state removed returns the instance itself.
\<close>

theorem removed_transitionTo_removed_succeeds:
  "UserStatus_transitionTo [\<lparr>status = removed\<rparr>] 0 removed = Inr (0, [\<lparr>status = removed\<rparr>])"
  by (simp add: UserStatus_transitionTo_def)

text \<open>
  C4, amended: on a UserStatus in state removed, \<^verbatim>\<open>transitionTo(t)\<close> fails with the error
  "Invalid transition from removed to t" for every target \<open>t\<close> other than removed, and
  \<^verbatim>\<open>transitionTo(removed)\<close> returns the same instance.
\<close>

theorem removed_is_terminal:
  assumes "this < length h" and "status (h ! this) = removed"
  shows "(t \<noteq> removed \<longrightarrow>
            UserStatus_transitionTo h this t =
              Inl (Error (''Invalid transition from removed to '' @ t))) \<and>
         UserStatus_transitionTo h this removed = Inr (this, h)"
  using assms
  by (simp add: UserStatus_transitionTo_def UserStatus_canTransitionTo_def
      UserStatus_validTransitions_def status_defs)

theorem removed_is_terminal_witness:
  "0 < length [\<lparr>status = removed\<rparr>] \<and> status ([\<lparr>status = removed\<rparr>] ! 0) = removed \<and>
   confirmed \<noteq> removed \<and>
   UserStatus_transitionTo [\<lparr>status = removed\<rparr>] 0 confirmed =
     Inl (Error ''Invalid transition from removed to confirmed'') \<and>
   UserStatus_transitionTo [\<lparr>status = removed\<rparr>] 0 removed = Inr (0, [\<lparr>status = removed\<rparr>])"
  using removed_is_terminal [of 0 "[\<lparr>status = removed\<rparr>]" confirmed]
  by (simp add: status_defs)

text \<open>
  C5: \<^verbatim>\<open>transitionTo(s)\<close> on a UserStatus or a UserRole that is in state \<open>s\<close> succeeds
  and returns the receiver itself: the same reference, and no object is created.
\<close>

theorem transitionTo_same_state:
  "(this < length h \<and> status (h ! this) = s \<longrightarrow>
      UserStatus_transitionTo h this s = Inr (this, h)) \<and>
   (that < length g \<and> role (g ! that) = r \<longrightarrow>
      UserRole_transitionTo g that r = Inr (that, g))"
  by (simp add: UserStatus_transitionTo_def UserRole_transitionTo_def)

theorem transitionTo_same_state_witness:
  "(1::nat) < length [\<lparr>status = confirmed\<rparr>, \<lparr>status = suspended\<rparr>] \<and>
   status ([\<lparr>status = confirmed\<rparr>, \<lparr>status = suspended\<rparr>] ! 1) = suspended \<and>
   UserStatus_transitionTo [\<lparr>status = confirmed\<rparr>, \<lparr>status = suspended\<rparr>] 1 suspended =
     Inr (1, [\<lparr>status = confirmed\<rparr>, \<lparr>status = suspended\<rparr>]) \<and>
   (0::nat) < length [\<lparr>role = ADMIN\<rparr>] \<and> role ([\<lparr>role = ADMIN\<rparr>] ! 0) = ADMIN \<and>
   UserRole_transitionTo [\<lparr>role = ADMIN\<rparr>] 0 ADMIN = Inr (0, [\<lparr>role = ADMIN\<rparr>])"
  using transitionTo_same_state
    [of 1 "[\<lparr>status = confirmed\<rparr>, \<lparr>status = suspended\<rparr>]" suspended 0 "[\<lparr>role = ADMIN\<rparr>]" ADMIN]
  by simp

text \<open>
  The UserStatus half of C6: a legal transition to another state returns a new instance
  in the target state and leaves the receiver as it was.
\<close>

lemma UserStatus_transitionTo_new_instance:
  assumes "this < length h" and "t \<noteq> status (h ! this)"
    and "UserStatus_canTransitionTo (h ! this) t = Inr True"
  shows "\<exists>r h'. UserStatus_transitionTo h this t = Inr (r, h') \<and> r \<noteq> this \<and>
           status (h' ! r) = t \<and> status (h' ! this) = status (h ! this)"
proof -
  have "t \<in> {confirmed, unconfirmed, suspended, removed}"
    using assms(3)
    by (auto simp add: UserStatus_canTransitionTo_def UserStatus_validTransitions_def
        split: option.splits if_splits)
  then have "UserStatus_new h t = Inr (length h, h @ [\<lparr>status = t\<rparr>])"
    by (rule UserStatus_new_member)
  then have "UserStatus_transitionTo h this t = Inr (length h, h @ [\<lparr>status = t\<rparr>])"
    using assms(2,3) by (auto simp add: UserStatus_transitionTo_def)
  then show ?thesis
    using assms(1) by (simp add: nth_append)
qed

text \<open>
  C6: a legal transition of a UserRole to another state, from USER to ADMIN, throws
  instead of returning a new instance: \<^verbatim>\<open>transitionTo\<close> calls the constructor, which
  throws for every value. The specification has it return a new instance in state ADMIN.
\<close>

theorem UserRole_transitionTo_throws:
  "UserRole_transitionTo [\<lparr>role = USER\<rparr>] 0 ADMIN = Inl (ReferenceError ''UserRoleEnaum'')"
  by (simp add: UserRole_transitionTo_def UserRole_canTransitionTo_def
      UserRole_validTransitions_def UserRole_new_def UserRole_scope_def role_defs)

section \<open>The User entity\<close>

lemma User_new_ok:
  "User_new h i =
     Inr (\<lparr>user_id = Some i, name = None, githubUsername = None, email = None,
           user_status = length h, user_role = Some ''USER'', password = None,
           resetPasswordToken = None, resetPasswordExpire = None,
           confirmEmailToken = None, confirmEmailExpire = None\<rparr>,
          h @ [\<lparr>status = unconfirmed\<rparr>])"
  by (simp add: User_new_def UserStatus_new_member)

lemma transitionTo_from_unconfirmed:
  assumes "this < length h" and "status (h ! this) = unconfirmed"
    and "t \<in> {confirmed, unconfirmed, suspended, removed}"
  shows "\<exists>r h'. UserStatus_transitionTo h this t = Inr (r, h') \<and> r < length h' \<and>
           status (h' ! r) = t"
proof (cases "t = unconfirmed")
  case True
  then show ?thesis
    using assms by (simp add: UserStatus_transitionTo_def)
next
  case False
  then have can: "UserStatus_canTransitionTo (h ! this) t = Inr True"
    using assms
    by (auto simp add: UserStatus_canTransitionTo_def UserStatus_validTransitions_def
        status_defs)
  have "UserStatus_transitionTo h this t = UserStatus_new h t"
    using False assms(2) can by (simp add: UserStatus_transitionTo_def)
  then show ?thesis
    using UserStatus_new_member [OF assms(3), of h] by simp
qed

text \<open>
  The status half of C7: \<^verbatim>\<open>setStatus\<close> goes through \<^verbatim>\<open>transitionTo\<close>, so a User whose
  status is a member of the enumeration keeps one, whatever string the setter is given.
\<close>

lemma setStatus_keeps_member:
  assumes "user_status u < length h"
    and "status (h ! user_status u) \<in> {confirmed, unconfirmed, suspended, removed}"
    and "setStatus h u s = Inr (u', h')"
  shows "user_status u' < length h' \<and> status (h' ! user_status u') = s \<and>
         s \<in> {confirmed, unconfirmed, suspended, removed}"
  using assms
  by (auto simp add: setStatus_def UserStatus_transitionTo_def UserStatus_canTransitionTo_def
      UserStatus_validTransitions_def UserStatus_new_def
      split: sum.splits if_splits option.splits)

text \<open>
  C7: \<^verbatim>\<open>setRole\<close> stores the string it is given by plain assignment; no transition
  function is involved, and a string outside the enumeration is stored as the role. The
  specification has \<^verbatim>\<open>setRole\<close> reject it.
\<close>

theorem setRole_stores_any_string:
  "getRole (setRole u ''bogus'') = Some ''bogus'' \<and> \<not> js_in ''bogus'' UserRoleEnum"
  by (simp add: getRole_def setRole_def js_in_def UserRoleEnum_def Object_prototype_keys_def)

text \<open>An email string that the Email constructor rejects ends \<^verbatim>\<open>readFrom\<close>.\<close>

lemma readFrom_rejected_email:
  assumes "readString reader ''email'' = Some e" and "check e = Some err"
  shows "readFrom check h u reader = Inl err"
  using assms by (simp add: readFrom_def Email_new_def Let_def)

text \<open>
  C8, as stated, fails for an email column that the Email constructor rejects: with a
  constructor that rejects a string without @, \<^verbatim>\<open>readFrom\<close> on a fresh User throws for
  the row whose email is the string "invalid", and nothing is written back.
\<close>

theorem readFrom_invalid_email_throws:
  "User_new [] 7 =
     Inr (\<lparr>user_id = Some 7, name = None, githubUsername = None, email = None,
           user_status = 0, user_role = Some ''USER'', password = None,
           resetPasswordToken = None, resetPasswordExpire = None,
           confirmEmailToken = None, confirmEmailExpire = None\<rparr>,
          [\<lparr>status = unconfirmed\<rparr>]) \<and>
   readFrom requires_at [\<lparr>status = unconfirmed\<rparr>]
     \<lparr>user_id = Some 7, name = None, githubUsername = None, email = None,
      user_status = 0, user_role = Some ''USER'', password = None,
      resetPasswordToken = None, resetPasswordExpire = None,
      confirmEmailToken = None, confirmEmailExpire = None\<rparr>
     \<lparr>readNumber = (\<lambda>c. if c = ''id'' then Some 1 else None),
      readString = (\<lambda>c. if c = ''status'' then Some ''confirmed''
                         else if c = ''email'' then Some ''invalid''
                         else if c = ''userRole'' then Some ''USER'' else None)\<rparr> =
     Inl (Error ''Invalid email address'')"
  by (simp add: User_new_ok readFrom_def Email_new_def requires_at_def)

text \<open>
  C8, amended: for a reader whose status column holds one of the four status tags and
  whose email column is \<^verbatim>\<open>null\<close> or a string that the Email constructor accepts,
  \<^verbatim>\<open>readFrom\<close> on a freshly constructed User succeeds, and \<^verbatim>\<open>writeTo\<close> then emits, field
  by field, exactly the values the reader gave; a \<^verbatim>\<open>null\<close> of the reader is a \<^verbatim>\<open>null\<close>
  field of the User and is written back as \<^verbatim>\<open>null\<close>. For an email column that the
  constructor rejects, \<^verbatim>\<open>readFrom\<close> throws the constructor's exception. This holds for
  every check the constructor may apply.
\<close>

theorem readFrom_writeTo_roundtrip:
  assumes "readString reader ''status'' = Some t"
    and "t \<in> {confirmed, unconfirmed, suspended, removed}"
  shows "((\<forall>e. readString reader ''email'' = Some e \<longrightarrow> check e = None) \<longrightarrow>
          (\<exists>u0 h0 u h'.
             User_new h i = Inr (u0, h0) \<and> readFrom check h0 u0 reader = Inr (u, h') \<and>
             user_id u = readNumber reader ''id'' \<and>
             name u = readString reader ''name'' \<and>
             githubUsername u = readString reader ''githubUsername'' \<and>
             email u = map_option Email (readString reader ''email'') \<and>
             user_role u = readString reader ''userRole'' \<and>
             password u = readString reader ''password'' \<and>
             resetPasswordToken u = readString reader ''resetPasswordToken'' \<and>
             resetPasswordExpire u = readNumber reader ''resetPasswordExpire'' \<and>
             confirmEmailToken u = readString reader ''confirmEmailToken'' \<and>
             confirmEmailExpire u = readNumber reader ''confirmEmailExpire'' \<and>
             writeTo h' u [] =
               [writeNumber ''id'' (readNumber reader ''id''),
                writeString ''name'' (readString reader ''name''),
                writeString ''githubUsername'' (readString reader ''githubUsername''),
                writeString ''email'' (readString reader ''email''),
                writeString ''status'' (readString reader ''status''),
                writeString ''userRole'' (readString reader ''userRole''),
                writeString ''password'' (readString reader ''password''),
                writeString ''resetPasswordToken'' (readString reader ''resetPasswordToken''),
                writeNumber ''resetPasswordExpire'' (readNumber reader ''resetPasswordExpire''),
                writeString ''confirmEmailToken'' (readString reader ''confirmEmailToken''),
                writeNumber ''confirmEmailExpire'' (readNumber reader ''confirmEmailExpire'')])) \<and>
         (\<forall>e err. readString reader ''email'' = Some e \<and> check e = Some err \<longrightarrow>
            (\<exists>u0 h0. User_new h i = Inr (u0, h0) \<and> readFrom check h0 u0 reader = Inl err))"
proof (intro conjI impI allI)
  assume ok: "\<forall>e. readString reader ''email'' = Some e \<longrightarrow> check e = None"
  let ?h0 = "h @ [\<lparr>status = unconfirmed\<rparr>]"
  have "length h < length ?h0" and "status (?h0 ! length h) = unconfirmed"
    by simp_all
  from transitionTo_from_unconfirmed [OF this assms(2)]
  obtain r h' where tr: "UserStatus_transitionTo ?h0 (length h) t = Inr (r, h')"
    and r: "r < length h'" "status (h' ! r) = t"
    by blast
  show "\<exists>u0 h0 u h'.
             User_new h i = Inr (u0, h0) \<and> readFrom check h0 u0 reader = Inr (u, h') \<and>
             user_id u = readNumber reader ''id'' \<and>
             name u = readString reader ''name'' \<and>
             githubUsername u = readString reader ''githubUsername'' \<and>
             email u = map_option Email (readString reader ''email'') \<and>
             user_role u = readString reader ''userRole'' \<and>
             password u = readString reader ''password'' \<and>
             resetPasswordToken u = readString reader ''resetPasswordToken'' \<and>
             resetPasswordExpire u = readNumber reader ''resetPasswordExpire'' \<and>
             confirmEmailToken u = readString reader ''confirmEmailToken'' \<and>
             confirmEmailExpire u = readNumber reader ''confirmEmailExpire'' \<and>
             writeTo h' u [] =
               [writeNumber ''id'' (readNumber reader ''id''),
                writeString ''name'' (readString reader ''name''),
                writeString ''githubUsername'' (readString reader ''githubUsername''),
                writeString ''email'' (readString reader ''email''),
                writeString ''status'' (readString reader ''status''),
                writeString ''userRole'' (readString reader ''userRole''),
                writeString ''password'' (readString reader ''password''),
                writeString ''resetPasswordToken'' (readString reader ''resetPasswordToken''),
                writeNumber ''resetPasswordExpire'' (readNumber reader ''resetPasswordExpire''),
                writeString ''confirmEmailToken'' (readString reader ''confirmEmailToken''),
                writeNumber ''confirmEmailExpire'' (readNumber reader ''confirmEmailExpire'')]"
    apply (simp only: User_new_ok)
    using tr r assms(1) ok
    apply (cases "readString reader ''email''")
     apply (simp_all add: readFrom_def writeTo_def UserStatus_transitionTo_cast_def
        getStatusString_def Email_new_def Let_def)
    done
next
  fix e err
  assume "readString reader ''email'' = Some e \<and> check e = Some err"
  then show "\<exists>u0 h0. User_new h i = Inr (u0, h0) \<and> readFrom check h0 u0 reader = Inl err"
    by (simp add: User_new_ok readFrom_rejected_email)
qed

theorem readFrom_writeTo_roundtrip_witness:
  "readString \<lparr>readNumber = (\<lambda>c. if c = ''id'' then Some 1 else None),
               readString = (\<lambda>c. if c = ''status'' then Some ''confirmed''
                                  else if c = ''name'' then Some ''admin''
                                  else if c = ''email'' then Some ''sys@admin.org''
                                  else if c = ''userRole'' then Some ''ADMIN'' else None)\<rparr>
     ''status'' = Some confirmed \<and>
   confirmed \<in> {confirmed, unconfirmed, suspended, removed} \<and>
   requires_at ''sys@admin.org'' = None \<and>
   (\<exists>u0 h0 u h'.
      User_new [] 7 = Inr (u0, h0) \<and>
      readFrom requires_at h0 u0
        \<lparr>readNumber = (\<lambda>c. if c = ''id'' then Some 1 else None),
         readString = (\<lambda>c. if c = ''status'' then Some ''confirmed''
                            else if c = ''name'' then Some ''admin''
                            else if c = ''email'' then Some ''sys@admin.org''
                            else if c = ''userRole'' then Some ''ADMIN'' else None)\<rparr> = Inr (u, h') \<and>
      email u = Some (Email ''sys@admin.org'') \<and>
      writeTo h' u [] =
        [writeNumber ''id'' (Some 1), writeString ''name'' (Some ''admin''),
         writeString ''githubUsername'' None, writeString ''email'' (Some ''sys@admin.org''),
         writeString ''status'' (Some ''confirmed''), writeString ''userRole'' (Some ''ADMIN''),
         writeString ''password'' None, writeString ''resetPasswordToken'' None,
         writeNumber ''resetPasswordExpire'' None, writeString ''confirmEmailToken'' None,
         writeNumber ''confirmEmailExpire'' None]) \<and>
   requires_at ''admin.org'' = Some (Error ''Invalid email address'') \<and>
   (\<exists>u0 h0.
      User_new [] 7 = Inr (u0, h0) \<and>
      readFrom requires_at h0 u0
        \<lparr>readNumber = (\<lambda>c. if c = ''id'' then Some 1 else None),
         readString = (\<lambda>c. if c = ''status'' then Some ''suspended''
                            else if c = ''email'' then Some ''admin.org'' else None)\<rparr> =
        Inl (Error ''Invalid email address''))"
proof -
  let ?r1 = "\<lparr>readNumber = (\<lambda>c. if c = ''id'' then Some 1 else None),
         readString = (\<lambda>c. if c = ''status'' then Some ''confirmed''
                            else if c = ''name'' then Some ''admin''
                            else if c = ''email'' then Some ''sys@admin.org''
                            else if c = ''userRole'' then Some ''ADMIN'' else None)\<rparr>"
  let ?r2 = "\<lparr>readNumber = (\<lambda>c. if c = ''id'' then Some (1::int) else None),
         readString = (\<lambda>c. if c = ''status'' then Some ''suspended''
                            else if c = ''email'' then Some ''admin.org'' else None)\<rparr>"
  have accepted: "requires_at ''sys@admin.org'' = None"
    and rejected: "requires_at ''admin.org'' = Some (Error ''Invalid email address'')"
    by (simp_all add: requires_at_def)
  have first: "\<exists>u0 h0 u h'.
      User_new [] 7 = Inr (u0, h0) \<and> readFrom requires_at h0 u0 ?r1 = Inr (u, h') \<and>
      email u = Some (Email ''sys@admin.org'') \<and>
      writeTo h' u [] =
        [writeNumber ''id'' (Some 1), writeString ''name'' (Some ''admin''),
         writeString ''githubUsername'' None, writeString ''email'' (Some ''sys@admin.org''),
         writeString ''status'' (Some ''confirmed''), writeString ''userRole'' (Some ''ADMIN''),
         writeString ''password'' None, writeString ''resetPasswordToken'' None,
         writeNumber ''resetPasswordExpire'' None, writeString ''confirmEmailToken'' None,
         writeNumber ''confirmEmailExpire'' None]"
    using readFrom_writeTo_roundtrip [of ?r1 confirmed requires_at "[]" 7, THEN conjunct1]
      accepted
    by (auto simp add: confirmed_def)
  have second: "\<exists>u0 h0. User_new [] 7 = Inr (u0, h0) \<and>
      readFrom requires_at h0 u0 ?r2 = Inl (Error ''Invalid email address'')"
    using readFrom_writeTo_roundtrip [of ?r2 suspended requires_at "[]" 7, THEN conjunct2]
      rejected
    by (auto simp add: suspended_def)
  from first second accepted rejected show ?thesis
    by (simp add: confirmed_def)
qed

section \<open>Storage and the writer\<close>

lemma find_None_iff_image: "find (\<lambda>r. f r = k) xs = None \<longleftrightarrow> k \<notin> f ` set xs"
  by (auto simp add: find_None_iff)

lemma find_map_replace:
  "P row \<Longrightarrow> find P xs \<noteq> None \<Longrightarrow>
   find P (map (\<lambda>r. if P r then row else r) xs) = Some row"
  by (induction xs) auto

lemma find_append_new: "P row \<Longrightarrow> find P xs = None \<Longrightarrow> find P (xs @ [row]) = Some row"
  by (induction xs) (auto split: if_splits)

lemma insert_submission_Inr:
  "insert_submission db NEW = Inr db' \<Longrightarrow> db' = db\<lparr>submissions := submissions db @ [NEW]\<rparr>"
  by (simp add: insert_submission_def split: if_splits)


lemma insert_children_Inr:
  "insert_children db sid cs = Inr db' \<Longrightarrow>
   db' = db\<lparr>submissions := submissions db @ map (child_row sid) cs\<rparr>"
proof (induction cs arbitrary: db)
  case Nil
  then show ?case by simp
next
  case (Cons c cs)
  then obtain db1 where 1: "insert_submission db (child_row sid c) = Inr db1"
    and 2: "insert_children db1 sid cs = Inr db'"
    by (auto split: sum.splits)
  from insert_submission_Inr [OF 1] Cons.IH [OF 2] show ?case by simp
qed



lemma dates_of_simps:
  "dates_of [] = []"
  "dates_of (c # cs) = (case submissionDate c of None \<Rightarrow> dates_of cs | Some d \<Rightarrow> d # dates_of cs)"
  by (simp_all add: dates_of_def split: option.splits)







lemma find_write_schedule_row:
  "find (\<lambda>r. schedules_id r = cs_id s) (schedules (write_schedule_row db s)) =
     Some \<lparr>schedules_id = cs_id s, schedules_startDate = startDate s,
           schedules_endDate = endDate s\<rparr>"
proof (cases "find (\<lambda>r. schedules_id r = cs_id s) (schedules db) = None")
  case True
  then show ?thesis
    by (simp add: write_schedule_row_def find_append_new)
next
  case False
  let ?row = "\<lparr>schedules_id = cs_id s, schedules_startDate = startDate s,
               schedules_endDate = endDate s\<rparr>"
  have "find (\<lambda>r. schedules_id r = cs_id s)
          (map (\<lambda>r. if schedules_id r = cs_id s then ?row else r) (schedules db)) = Some ?row"
    using False by (intro find_map_replace) simp_all
  then show ?thesis
    using False by (simp add: write_schedule_row_def Let_def)
qed


text \<open>The database in which \<^verbatim>\<open>writeRoot\<close> inserts the children.\<close>

lemma writeRoot_children:
  "writeRoot db s =
     (case insert_children (delete_submissions (write_schedule_row db s) (cs_id s)) (cs_id s)
             (submissionDates s) of
        Inl e \<Rightarrow> (Inl e, db)
      | Inr db3 \<Rightarrow> (Inr (), db3))"
  by (simp add: writeRoot_def Let_def)






lemma set_dates_list:
  "map submissionDate cs = map Some ds \<Longrightarrow>
   dates_of cs = ds \<and> ((\<exists>c\<in>set cs. P (submissionDate c)) \<longleftrightarrow> (\<exists>d\<in>set ds. P (Some d)))"
proof (induction cs arbitrary: ds)
  case Nil
  then show ?case by (simp add: dates_of_simps)
next
  case (Cons c cs)
  then obtain d ds' where "ds = d # ds'" "submissionDate c = Some d"
    "map submissionDate cs = map Some ds'"
    by (cases ds) auto
  with Cons.IH [of ds'] show ?case
    by (simp add: dates_of_simps)
qed

text \<open>
  For a schedule whose dates are all set, the window and the dates in the terms of the
  dates themselves.
\<close>

lemma set_dates_window:
  assumes "startDate s = Some a" and "endDate s = Some b"
    and "map submissionDate (submissionDates s) = map Some ds"
  shows "dates_of (submissionDates s) = ds"
    and "(\<exists>c\<in>set (submissionDates s). outside_window s c) \<longleftrightarrow> (\<exists>d\<in>set ds. d < a \<or> b < d)"
  using set_dates_list [OF assms(3), of "\<lambda>x. sql_lt x (Some a) \<or> sql_lt (Some b) x"] assms(1,2)
  by (simp_all add: outside_window_def sql_lt_def)

lemma writeRoot_Inr:
  assumes "writeRoot db s = (Inr u, db')"
  shows "find (\<lambda>r. schedules_id r = cs_id s) (schedules db') =
           Some \<lparr>schedules_id = cs_id s, schedules_startDate = startDate s,
                 schedules_endDate = endDate s\<rparr> \<and>
         filter (\<lambda>r. submissions_scheduleId r = Some (cs_id s)) (submissions db') =
           map (child_row (cs_id s)) (submissionDates s)"
proof -
  let ?db2 = "delete_submissions (write_schedule_row db s) (cs_id s)"
  from assms have "insert_children ?db2 (cs_id s) (submissionDates s) = Inr db'"
    by (auto simp add: writeRoot_children split: sum.splits)
  from insert_children_Inr [OF this]
  have db': "db' = ?db2\<lparr>submissions := submissions ?db2 @
        map (child_row (cs_id s)) (submissionDates s)\<rparr>" .
  have "schedules db' = schedules (write_schedule_row db s)"
    by (simp add: db' delete_submissions_def)
  moreover have "filter (\<lambda>r. submissions_scheduleId r = Some (cs_id s)) (submissions ?db2) = []"
    by (auto simp add: delete_submissions_def filter_empty_conv)
  moreover have "filter (\<lambda>r. submissions_scheduleId r = Some (cs_id s))
        (map (child_row (cs_id s)) (submissionDates s)) =
      map (child_row (cs_id s)) (submissionDates s)"
    by (induction "submissionDates s") (auto simp add: child_row_def filter_id_conv)
  ultimately show ?thesis
    by (simp add: db' find_write_schedule_row)
qed

lemma getCourseSchedule_id: "getCourseSchedule db i = Some s \<Longrightarrow> cs_id s = i"
  by (auto simp add: getCourseSchedule_def find_Some_iff)

lemma saveSchedule_Inr:
  assumes "saveSchedule f db courseId a b ds = (Inr s, db')"
  shows "cs_id s = courseId \<and>
         find (\<lambda>r. schedules_id r = courseId) (schedules db') =
           Some \<lparr>schedules_id = courseId, schedules_startDate = Some a,
                 schedules_endDate = Some b\<rparr> \<and>
         filter (\<lambda>r. submissions_scheduleId r = Some courseId) (submissions db') =
           map (child_row courseId) (submissionDates s)"
  using assms
  by (auto simp add: saveSchedule_def Let_def split: sum.splits option.splits prod.splits
      dest!: getCourseSchedule_id writeRoot_Inr)

lemma deleteCourse_deletes:
  assumes "courseId \<in> courses_id ` set (courses db)"
    and "Some courseId \<notin> projects_courseId ` set (projects db)"
  shows "deleteCourse db courseId =
      (Inr True,
       db\<lparr>submissions := filter (\<lambda>r. submissions_scheduleId r \<noteq> Some courseId) (submissions db),
          schedules := filter (\<lambda>r. schedules_id r \<noteq> courseId) (schedules db),
          courses := filter (\<lambda>r. courses_id r \<noteq> courseId) (courses db)\<rparr>)"
proof -
  have "filter (\<lambda>r. projects_courseId r = Some courseId) (projects db) = []"
    using assms(2) by (force simp add: filter_empty_conv)
  moreover have "find (\<lambda>r. courses_id r = courseId) (courses db) \<noteq> None"
    using assms(1) by (simp add: find_None_iff_image)
  ultimately show ?thesis
    by (auto simp add: deleteCourse_def delete_submissions_def Let_def split: option.splits)
qed




text \<open>
  C9: \<^verbatim>\<open>deleteTerm\<close> on a term with a course throws and leaves the database as it was,
  and so does \<^verbatim>\<open>deleteCourse\<close> on a course with a project; on a term without courses, and
  on a course without projects, the deletion returns true and the row is gone; on an id
  that no term, or no course, has, it returns false and throws nothing.
\<close>

theorem deletion_guard:
  "(termId \<in> terms_id ` set (terms db) \<and> termId \<in> courses_termId ` set (courses db) \<longrightarrow>
      (\<exists>m. deleteTerm db termId = (Inl (IllegalArgumentException m), db))) \<and>
   (termId \<in> terms_id ` set (terms db) \<and> termId \<notin> courses_termId ` set (courses db) \<longrightarrow>
      (\<exists>db'. deleteTerm db termId = (Inr True, db') \<and>
             termId \<notin> terms_id ` set (terms db'))) \<and>
   (termId \<notin> terms_id ` set (terms db) \<longrightarrow> deleteTerm db termId = (Inr False, db)) \<and>
   (courseId \<in> courses_id ` set (courses db) \<and>
    Some courseId \<in> projects_courseId ` set (projects db) \<longrightarrow>
      (\<exists>m. deleteCourse db courseId = (Inl (IllegalArgumentException m), db))) \<and>
   (courseId \<in> courses_id ` set (courses db) \<and>
    Some courseId \<notin> projects_courseId ` set (projects db) \<longrightarrow>
      (\<exists>db'. deleteCourse db courseId = (Inr True, db') \<and>
             courseId \<notin> courses_id ` set (courses db'))) \<and>
   (courseId \<notin> courses_id ` set (courses db) \<longrightarrow> deleteCourse db courseId = (Inr False, db))"
proof -
  have "filter (\<lambda>r. courses_termId r = termId) (courses db) = [] \<longleftrightarrow>
      termId \<notin> courses_termId ` set (courses db)"
    by (force simp add: filter_empty_conv)
  moreover have "filter (\<lambda>r. projects_courseId r = Some courseId) (projects db) = [] \<longleftrightarrow>
      Some courseId \<notin> projects_courseId ` set (projects db)"
    by (force simp add: filter_empty_conv)
  moreover have "find (\<lambda>r. terms_id r = termId) (terms db) = None \<longleftrightarrow>
      termId \<notin> terms_id ` set (terms db)"
    by (rule find_None_iff_image)
  moreover have "find (\<lambda>r. courses_id r = courseId) (courses db) = None \<longleftrightarrow>
      courseId \<notin> courses_id ` set (courses db)"
    by (rule find_None_iff_image)
  ultimately show ?thesis
    by (auto simp add: deleteTerm_def deleteCourse_def delete_submissions_def Let_def
        split: option.splits)
qed

theorem deletion_guard_witness:
  "(\<exists>m. deleteTerm scenario_db 1 = (Inl (IllegalArgumentException m), scenario_db)) \<and>
   (\<exists>m. deleteCourse scenario_db 10 = (Inl (IllegalArgumentException m), scenario_db)) \<and>
   deleteTerm scenario_db 2 = (Inr False, scenario_db) \<and>
   deleteCourse scenario_db 11 = (Inr False, scenario_db) \<and>
   fst (deleteProject scenario_db 100) = Inr True \<and>
   fst (deleteCourse (snd (deleteProject scenario_db 100)) 10) = Inr True \<and>
   fst (deleteTerm (snd (deleteCourse (snd (deleteProject scenario_db 100)) 10)) 1) = Inr True"
  using deletion_guard [of 1 scenario_db 10] deletion_guard [of 2 scenario_db 11]
    deletion_guard [of 1 "snd (deleteProject scenario_db 100)" 10]
    deletion_guard [of 1 "snd (deleteCourse (snd (deleteProject scenario_db 100)) 10)" 10]
  by (simp add: scenario_db_def deleteProject_def getCourseProject_def initializeDB_def
      deleteCourse_def deleteTerm_def delete_submissions_def)

text \<open>
  C10: a schedule that \<^verbatim>\<open>saveSchedule\<close> saves for a course has the course's id: the
  returned schedule, its row in \<^verbatim>\<open>schedules\<close> and the \<^verbatim>\<open>scheduleId\<close> of the rows of its
  submission dates. And \<^verbatim>\<open>deleteCourse\<close> on a course without projects returns true and
  deletes the submissions whose \<^verbatim>\<open>scheduleId\<close> is the course's id, the schedule whose id
  is the course's id and the course; every other row of every table stays.
\<close>

theorem schedule_shares_course_id:
  "(saveSchedule f db courseId a b ds = (Inr s, db') \<longrightarrow>
      cs_id s = courseId \<and>
      find (\<lambda>r. schedules_id r = courseId) (schedules db') =
        Some \<lparr>schedules_id = courseId, schedules_startDate = Some a,
              schedules_endDate = Some b\<rparr> \<and>
      filter (\<lambda>r. submissions_scheduleId r = Some courseId) (submissions db') =
        map (child_row courseId) (submissionDates s)) \<and>
   (courseId \<in> courses_id ` set (courses db) \<and>
    Some courseId \<notin> projects_courseId ` set (projects db) \<longrightarrow>
      deleteCourse db courseId =
        (Inr True,
         db\<lparr>submissions :=
               filter (\<lambda>r. submissions_scheduleId r \<noteq> Some courseId) (submissions db),
            schedules := filter (\<lambda>r. schedules_id r \<noteq> courseId) (schedules db),
            courses := filter (\<lambda>r. courses_id r \<noteq> courseId) (courses db)\<rparr>))"
  using saveSchedule_Inr [of f db courseId a b ds s db'] deleteCourse_deletes [of courseId db]
  by blast

theorem schedule_shares_course_id_witness:
  "saveSchedule scenario_factory (scenario_db\<lparr>projects := []\<rparr>) 10 1640995200000 1643673600000
     [1640995200000] =
     (Inr \<lparr>cs_id = 10, startDate = Some 1640995200000, endDate = Some 1643673600000,
           submissionDates = [\<lparr>sd_id = 1, submissionDate = Some 1640995200000\<rparr>]\<rparr>,
      scenario_db
        \<lparr>projects := [],
         schedules := [\<lparr>schedules_id = 10, schedules_startDate = Some 1640995200000,
                        schedules_endDate = Some 1643673600000\<rparr>],
         submissions := [\<lparr>submissions_id = 1, submissions_scheduleId = Some 10,
                          submissions_submissionDate = Some 1640995200000\<rparr>]\<rparr>) \<and>
   filter (\<lambda>r. submissions_scheduleId r = Some 10)
     (submissions
       (scenario_db
          \<lparr>projects := [],
           schedules := [\<lparr>schedules_id = 10, schedules_startDate = Some 1640995200000,
                          schedules_endDate = Some 1643673600000\<rparr>],
           submissions := [\<lparr>submissions_id = 1, submissions_scheduleId = Some 10,
                            submissions_submissionDate = Some 1640995200000\<rparr>]\<rparr>)) =
     map (child_row 10) [\<lparr>sd_id = 1, submissionDate = Some 1640995200000\<rparr>] \<and>
   deleteCourse
     (scenario_db
        \<lparr>projects := [],
         schedules := [\<lparr>schedules_id = 10, schedules_startDate = Some 1640995200000,
                        schedules_endDate = Some 1643673600000\<rparr>],
         submissions := [\<lparr>submissions_id = 1, submissions_scheduleId = Some 10,
                          submissions_submissionDate = Some 1640995200000\<rparr>]\<rparr>) 10 =
     (Inr True, scenario_db\<lparr>projects := [], courses := []\<rparr>)"
proof -
  let ?a = "1640995200000 :: int" and ?b = "1643673600000 :: int"
  let ?s = "\<lparr>cs_id = 10, startDate = Some ?a, endDate = Some ?b,
             submissionDates = [\<lparr>sd_id = 1, submissionDate = Some ?a\<rparr>]\<rparr>"
  let ?db1 = "scenario_db
        \<lparr>projects := [],
         schedules := [\<lparr>schedules_id = 10, schedules_startDate = Some ?a,
                        schedules_endDate = Some ?b\<rparr>],
         submissions := [\<lparr>submissions_id = 1, submissions_scheduleId = Some 10,
                          submissions_submissionDate = Some ?a\<rparr>]\<rparr>"
  have save: "saveSchedule scenario_factory (scenario_db\<lparr>projects := []\<rparr>) 10 ?a ?b [?a] =
      (Inr ?s, ?db1)"
    by (simp add: saveSchedule_def readCourse_def getCourse_def getProjectsForCourse_def
        getCourseSchedule_def scenario_factory_def writeRoot_def write_schedule_row_def
        delete_submissions_def child_row_def insert_submission_def
        submissions_insert_trigger_def submissions_primary_key_conflict_def
        submissions_unique_conflict_def select_startDate_def
        select_endDate_def sql_lt_def scenario_db_def initializeDB_def List.map_filter_def)
  have rows: "filter (\<lambda>r. submissions_scheduleId r = Some 10) (submissions ?db1) =
      map (child_row 10) (submissionDates ?s)"
    using schedule_shares_course_id
      [of scenario_factory "scenario_db\<lparr>projects := []\<rparr>" 10 ?a ?b "[?a]" ?s ?db1,
        THEN conjunct1] save
    by blast
  have hyp: "10 \<in> courses_id ` set (courses ?db1) \<and>
      Some 10 \<notin> projects_courseId ` set (projects ?db1)"
    by (simp add: scenario_db_def initializeDB_def)
  have "deleteCourse ?db1 10 = (Inr True, scenario_db\<lparr>projects := [], courses := []\<rparr>)"
    using schedule_shares_course_id [of _ ?db1 10, THEN conjunct2] hyp
    by (simp add: scenario_db_def initializeDB_def)
  with save rows show ?thesis
    by (simp add: child_row_def)
qed

end
